theory Spec2Isabelle
  imports Complex_Main "HOL-Library.Word"
begin

section \<open>Data model of \<open>image_blending/show.py\<close>\<close>

text \<open>
  An image is a numpy array of shape height x width x channel with unsigned 8-bit samples:
  a list of rows, each row a list of pixels, each pixel a list of samples. A colour is the
  Python sequence of channel intensities that is handed to OpenCV (a tuple in \<open>COLORS\<close>,
  a list after \<open>tolist()\<close>); both are a list of integers here. A point is a pair of
  floats; a finite float is the real number it denotes.
\<close>

type_synonym sample = "8 word"
type_synonym pixel = "sample list"
type_synonym image = "pixel list list"
type_synonym color = "int list"
type_synonym addr = nat

datatype error = AssertionError | IndexError | AttributeError | TypeError


text \<open>An image argument is a path string or an array object (a reference into the heap).\<close>

datatype image_arg = Path string | Arr addr

text \<open>The \<open>titles\<close> parameter: \<open>None\<close>, one string, or a list of strings.\<close>

datatype titles_arg = NoTitles | OneTitle string | TitleList "string list"

text \<open>
  Calls into OpenCV and matplotlib are recorded in a log, in call order. \<open>Circle a c r col\<close>
  is \<open>cv2.circle\<close> on the array at address \<open>a\<close> with centre \<open>c\<close>, radius argument \<open>r\<close>,
  colour \<open>col\<close> and thickness \<open>-1\<close> (filled).
\<close>

datatype event =
    Imread string
  | Circle addr "int \<times> int" int color
  | Figure "int \<times> int"
  | Subplot int int int
  | Title "string option"
  | AxisOff
  | TightLayout real real
  | Imshow "addr option" "string option"
  | Show

text \<open>
  The world outside the module: \<open>fs\<close> is what \<open>cv2.imread\<close> decodes from a path
  (\<open>None\<close> when the file is missing or corrupt), \<open>entropy\<close> is the raw output of numpy's
  global generator, and \<open>raster r dx dy\<close> tells whether OpenCV's filled circle of radius
  \<open>r\<close> covers the pixel at offset \<open>(dx, dy)\<close> from its centre.
\<close>

record env =
  fs :: "string \<Rightarrow> image option"
  entropy :: "nat \<Rightarrow> nat"
  raster :: "int \<Rightarrow> int \<Rightarrow> int \<Rightarrow> bool"

text \<open>
  The mutable state: the heap of array objects (an address is an index, allocation
  appends), the log of library calls, and the number of raw values the generator has
  handed out.
\<close>

record state =
  heap :: "image list"
  log :: "event list"
  rng_pos :: nat

section \<open>The palette\<close>

definition COLORS :: "color list" where
  "COLORS = [[250, 50, 50], [50, 250, 50], [50, 50, 250], [250, 250, 50],
             [250, 50, 250], [50, 250, 250], [20, 150, 250], [150, 20, 250],
             [250, 20, 150], [250, 150, 20], [20, 250, 150], [150, 250, 20]]"

text \<open>Python's \<open>xs[:n]\<close>: a negative bound counts from the end.\<close>

definition slice_to :: "'a list \<Rightarrow> int \<Rightarrow> 'a list" where
  "slice_to xs n =
     (if n < 0 then take (nat (int (length xs) + n)) xs else take (nat n) xs)"

text \<open>
  \<open>np.random.randint(low, high, (rows, cols))\<close>: a \<open>rows\<close> x \<open>cols\<close> matrix of integers
  from \<open>low\<close> (inclusive) to \<open>high\<close> (exclusive), each entry from its own raw value of the
  generator; the generator advances by \<open>rows * cols\<close>.
\<close>

definition randint ::
  "(nat \<Rightarrow> nat) \<Rightarrow> int \<Rightarrow> int \<Rightarrow> nat \<Rightarrow> nat \<Rightarrow> nat \<Rightarrow> int list list \<times> nat" where
  "randint raw low high rows cols pos =
     (map (\<lambda>i. map (\<lambda>j. low + int (raw (pos + i * cols + j)) mod (high - low)) [0..<cols])
          [0..<rows],
      pos + rows * cols)"

definition get_colors :: "(nat \<Rightarrow> nat) \<Rightarrow> int \<Rightarrow> nat \<Rightarrow> color list \<times> nat" where
  "get_colors raw n_colors pos =
     (if n_colors \<le> int (length COLORS) then (slice_to COLORS n_colors, pos)
      else
        (let (random_colors, pos') =
               randint raw 0 255 (nat (n_colors - int (length COLORS))) 3 pos
         in (COLORS @ random_colors, pos')))"

section \<open>Python and library primitives\<close>


text \<open>\<open>xs[i]\<close>: a negative index counts from the end, anything outside raises.\<close>

definition index :: "'a list \<Rightarrow> int \<Rightarrow> error + 'a" where
  "index xs i =
     (if 0 \<le> i \<and> i < int (length xs) then Inr (xs ! nat i)
      else if i < 0 \<and> - int (length xs) \<le> i then Inr (xs ! nat (int (length xs) + i))
      else Inl IndexError)"

definition emit :: "event \<Rightarrow> state \<Rightarrow> state" where
  "emit ev s = s\<lparr>log := log s @ [ev]\<rparr>"


definition alloc :: "image \<Rightarrow> state \<Rightarrow> addr \<times> state" where
  "alloc img s = (length (heap s), s\<lparr>heap := heap s @ [img]\<rparr>)"

text \<open>\<open>cv2.imread(path)\<close>: a fresh array, or \<open>None\<close> when nothing can be decoded.\<close>

definition cv2_imread :: "env \<Rightarrow> string \<Rightarrow> state \<Rightarrow> addr option \<times> state" where
  "cv2_imread e p s =
     (let s' = emit (Imread p) s
      in case fs e p of
           None \<Rightarrow> (None, s')
         | Some img \<Rightarrow> (let (a, s'') = alloc img s' in (Some a, s'')))"






section \<open>Point overlay\<close>





section \<open>Grid display\<close>

text \<open>
  \<open>_read_image_if_need(*args)\<close>: every path is decoded, every array is passed on; a
  failed decode leaves \<open>None\<close> in the list.
\<close>

fun read_image_if_need :: "env \<Rightarrow> image_arg list \<Rightarrow> state \<Rightarrow> addr option list \<times> state" where
  "read_image_if_need e [] s = ([], s)"
| "read_image_if_need e (image0 # args) s =
     (let (obj, s') = (case image0 of
                         Path p \<Rightarrow> cv2_imread e p s
                       | Arr a \<Rightarrow> (Some a, s));
          (images, s'') = read_image_if_need e args s'
      in (obj # images, s''))"

text \<open>The loop of \<open>subplot_images\<close> over \<open>enumerate(images, start=1)\<close>.\<close>

fun subplot_loop ::
  "int \<Rightarrow> int \<Rightarrow> string option list \<Rightarrow> string option \<Rightarrow> bool \<Rightarrow> real \<times> real \<Rightarrow>
   (nat \<times> addr option) list \<Rightarrow> state \<Rightarrow> (error + unit) \<times> state" where
  "subplot_loop n_rows n_columns titles cmap axis layout_pad [] s = (Inr (), s)"
| "subplot_loop n_rows n_columns titles cmap axis layout_pad ((i, img) # rest) s =
     (let s1 = emit (Subplot n_rows n_columns (int i)) s
      in case index titles (int i - 1) of
           Inl err \<Rightarrow> (Inl err, s1)
         | Inr t \<Rightarrow>
             (let s2 = emit (Title t) s1;
                  s3 = (if \<not> axis then emit AxisOff s2 else s2);
                  s4 = emit (TightLayout (fst layout_pad) (snd layout_pad)) s3;
                  s5 = emit (Imshow img cmap) s4
              in subplot_loop n_rows n_columns titles cmap axis layout_pad rest s5))"

definition subplot_images ::
  "env \<Rightarrow> image_arg list \<Rightarrow> int \<Rightarrow> int \<Rightarrow> int \<times> int \<Rightarrow> titles_arg \<Rightarrow> string option \<Rightarrow>
   bool \<Rightarrow> real \<times> real \<Rightarrow> state \<Rightarrow> (error + unit) \<times> state" where
  "subplot_images e images n_rows n_columns figsize titles cmap axis layout_pad s =
     (if \<not> int (length images) \<le> n_rows * n_columns then (Inl AssertionError, s)
      else
        (let titles' = (case titles of
                          NoTitles \<Rightarrow> replicate (length images) None
                        | OneTitle t \<Rightarrow> replicate (length images) (Some t)
                        | TitleList ts \<Rightarrow> map Some ts);
             s1 = emit (Figure figsize) s;
             (images', s2) = read_image_if_need e images s1
         in case subplot_loop n_rows n_columns titles' cmap axis layout_pad
                   (enumerate 1 images') s2 of
              (Inl err, s3) \<Rightarrow> (Inl err, s3)
            | (Inr u, s3) \<Rightarrow> (Inr (), emit Show s3)))"

section \<open>Specification vocabulary\<close>













text \<open>The titles set by the \<open>plt.title\<close> calls of a log, in order.\<close>

fun title_of :: "event \<Rightarrow> string option list" where
  "title_of (Title t) = [t]"
| "title_of ev = []"

definition titles_of :: "event list \<Rightarrow> string option list" where
  "titles_of evs = concat (map title_of evs)"

text \<open>The library calls of one iteration of the grid loop.\<close>

definition slot_events ::
  "int \<Rightarrow> int \<Rightarrow> string option list \<Rightarrow> string option \<Rightarrow> bool \<Rightarrow> real \<times> real \<Rightarrow>
   nat \<times> addr option \<Rightarrow> event list" where
  "slot_events n_rows n_columns titles cmap axis layout_pad ia =
     [Subplot n_rows n_columns (int (fst ia)), Title (titles ! (fst ia - 1))]
     @ (if axis then [] else [AxisOff])
     @ [TightLayout (fst layout_pad) (snd layout_pad), Imshow (snd ia) cmap]"

section \<open>Sample inputs\<close>

text \<open>A Euclidean disc as the raster, a 2 x 2 image with three channels, one file.\<close>

definition disc :: "int \<Rightarrow> int \<Rightarrow> int \<Rightarrow> bool" where
  "disc r dx dy \<longleftrightarrow> dx * dx + dy * dy \<le> r * r"

definition img0 :: image where
  "img0 = [[[1, 2, 3], [4, 5, 6]], [[7, 8, 9], [10, 11, 12]]]"

definition env0 :: env where
  "env0 = \<lparr>fs = (\<lambda>p. if p = ''a.png'' then Some img0 else None),
           entropy = (\<lambda>i. 7 * i + 255),
           raster = disc\<rparr>"

definition st0 :: state where
  "st0 = \<lparr>heap = [img0], log = [], rng_pos = 0\<rparr>"



section \<open>Properties of the palette\<close>

lemma length_COLORS: "length COLORS = 12"
  by (simp add: COLORS_def)

lemma length_randint: "length (fst (randint raw low high rows cols pos)) = rows"
  by (simp add: randint_def)

lemma snd_randint: "snd (randint raw low high rows cols pos) = pos + rows * cols"
  by (simp add: randint_def)

lemma get_colors_small:
  "n \<le> 12 \<Longrightarrow> get_colors raw n pos = (slice_to COLORS n, pos)"
  by (simp add: get_colors_def length_COLORS)

lemma get_colors_large:
  "12 < n \<Longrightarrow>
   get_colors raw n pos =
     (COLORS @ fst (randint raw 0 255 (nat (n - 12)) 3 pos), pos + nat (n - 12) * 3)"
  by (simp add: get_colors_def length_COLORS randint_def)


text \<open>
  C2. For every \<open>n\<close> with \<open>0 \<le> n \<le> 12\<close>, \<open>get_colors(n)\<close> is exactly the first \<open>n\<close>
  entries of the fixed palette, in the palette's order: the result is the same for every
  generator, and the generator is not advanced.
\<close>

theorem get_colors_prefix:
  assumes "0 \<le> n" and "n \<le> 12"
  shows "get_colors raw n pos = (take (nat n) COLORS, pos)"
  using assms by (simp add: get_colors_small slice_to_def)

theorem get_colors_prefix_witness:
  "(0::int) \<le> 3 \<and> (3::int) \<le> 12 \<and>
   get_colors (\<lambda>i. 7 * i + 200) 3 5 = ([[250, 50, 50], [50, 250, 50], [50, 50, 250]], 5)"
proof -
  have a: "(0::int) \<le> 3" and b: "(3::int) \<le> 12" by simp_all
  have "take (nat 3) COLORS = [[250, 50, 50], [50, 250, 50], [50, 50, 250]]"
    by (simp add: COLORS_def)
  with get_colors_prefix [OF a b, of "\<lambda>i. 7 * i + 200" 5] show ?thesis by simp
qed

lemma randint_first_row:
  "0 < rows \<Longrightarrow>
   fst (randint raw 0 255 rows 3 pos) ! 0 =
     [int (raw pos) mod 255, int (raw (pos + 1)) mod 255, int (raw (pos + 2)) mod 255]"
  by (simp add: randint_def upt_rec [of 0 3] upt_rec [of 1 3] upt_rec [of 2 3]
        upt_rec [of "Suc 0" 3] numeral_2_eq_2 numeral_3_eq_3)

text \<open>
  C3. For \<open>n > 12\<close> the palette is followed by \<open>n - 12\<close> colours drawn from the
  generator, with channels meant to range over the inclusive \<open>[0, 255]\<close>. The code
  calls \<open>randint(0, 255, ...)\<close>, whose upper bound is exclusive: at \<open>n = 13\<close> the
  thirteenth colour has every channel reduced into \<open>0 .. 254\<close>, and 255 is never drawn.
\<close>

theorem get_colors_13_channel_range:
  "fst (get_colors raw 13 pos) =
     COLORS @ [[int (raw pos) mod 255, int (raw (pos + 1)) mod 255,
                int (raw (pos + 2)) mod 255]] \<and>
   255 \<notin> set (fst (get_colors raw 13 pos) ! 12)"
proof -
  have rows: "fst (randint raw 0 255 (Suc 0) 3 pos) =
      [[int (raw pos) mod 255, int (raw (pos + 1)) mod 255, int (raw (pos + 2)) mod 255]]"
    using randint_first_row [of "Suc 0" raw pos] length_randint [of raw 0 255 "Suc 0" 3 pos]
    by (cases "fst (randint raw 0 255 (Suc 0) 3 pos)") simp_all
  have eq: "fst (get_colors raw 13 pos) =
     COLORS @ [[int (raw pos) mod 255, int (raw (pos + 1)) mod 255,
                int (raw (pos + 2)) mod 255]]"
    by (simp add: get_colors_large rows)
  have lt: "int k mod 255 \<noteq> 255" for k
    using pos_mod_bound [of 255 "int k"] by linarith
  show ?thesis
    unfolding eq by (simp add: nth_append length_COLORS lt [symmetric])
qed

section \<open>The drawing loop\<close>












section \<open>The grid loop\<close>

lemma subplot_loop_run:
  assumes "1 \<le> n" and "n - 1 \<le> length titles"
  shows "subplot_loop r c titles cmap axis pad (enumerate n imgs) s =
     (if length titles - (n - 1) < length imgs then Inl IndexError else Inr (),
      s\<lparr>log := log s
           @ concat (map (slot_events r c titles cmap axis pad)
                       (take (length titles - (n - 1)) (enumerate n imgs)))
           @ (if length titles - (n - 1) < length imgs
              then [Subplot r c (int (length titles) + 1)] else [])\<rparr>)"
  using assms
proof (induction imgs arbitrary: n s)
  case Nil
  then show ?case by simp
next
  case (Cons img imgs)
  show ?case
  proof (cases "n - 1 < length titles")
    case False
    with Cons.prems have eq: "length titles = n - 1" by simp
    have "index titles (int n - 1) = Inl IndexError"
      using Cons.prems eq by (auto simp: index_def)
    then show ?thesis
      using Cons.prems eq by (simp add: enumerate_simps emit_def of_nat_diff)
  next
    case True
    have idx: "index titles (int n - 1) = Inr (titles ! (n - 1))"
      using Cons.prems True by (auto simp: index_def nat_diff_distrib')
    have 1: "1 \<le> Suc n" by simp
    have 2: "Suc n - 1 \<le> length titles" using True by simp
    define m where "m = length titles - n"
    have m: "length titles - (n - 1) = Suc m" "length titles - n = m"
      "Suc (length titles) - n = Suc m"
      using True Cons.prems(1) by (simp_all add: m_def)
    show ?thesis
      using Cons.prems True
      by (simp add: enumerate_simps idx Let_def Cons.IH [OF 1 2] emit_def m slot_events_def)
  qed
qed

section \<open>Properties of the point overlay\<close>































section \<open>Properties of the grid display\<close>




lemma read_image_if_need_facts:
  "length (fst (read_image_if_need e args s)) = length args"
  "titles_of (log (snd (read_image_if_need e args s))) = titles_of (log s)"
proof (induction args arbitrary: s)
  case Nil
  {
    case 1
    show ?case by simp
  next
    case 2
    show ?case by simp
  }
next
  case (Cons image0 args)
  {
    case 1
    show ?case
      using Cons.IH(1) by (simp add: split_beta Let_def)
  next
    case 2
    show ?case
      using Cons.IH(2)
      by (cases image0)
        (simp_all add: split_beta Let_def cv2_imread_def emit_def alloc_def titles_of_def
          split: option.splits)
  }
qed

lemma subplot_images_run:
  assumes "int (length images) \<le> r * c"
    and "T = (case titles of
                NoTitles \<Rightarrow> replicate (length images) None
              | OneTitle t \<Rightarrow> replicate (length images) (Some t)
              | TitleList ts \<Rightarrow> map Some ts)"
    and "R = read_image_if_need e images (emit (Figure fz) s)"
  shows "subplot_images e images r c fz titles cmap axis pad s =
     (if length T < length images then Inl IndexError else Inr (),
      (snd R)\<lparr>log := log (snd R)
           @ concat (map (slot_events r c T cmap axis pad)
                       (take (length T) (enumerate 1 (fst R))))
           @ (if length T < length images
              then [Subplot r c (int (length T) + 1)] else [Show])\<rparr>)"
proof -
  have len: "length (fst R) = length images"
    by (simp add: assms(3) read_image_if_need_facts(1))
  have loop: "subplot_loop r c T cmap axis pad (enumerate 1 (fst R)) (snd R) =
     (if length T < length images then Inl IndexError else Inr (),
      (snd R)\<lparr>log := log (snd R)
           @ concat (map (slot_events r c T cmap axis pad)
                       (take (length T) (enumerate 1 (fst R))))
           @ (if length T < length images
              then [Subplot r c (int (length T) + 1)] else [])\<rparr>)"
    using subplot_loop_run [of 1 T r c cmap axis pad "fst R" "snd R"] len by simp
  have "subplot_images e images r c fz titles cmap axis pad s =
     (case subplot_loop r c T cmap axis pad (enumerate 1 (fst R)) (snd R) of
        (Inl err, s3) \<Rightarrow> (Inl err, s3)
      | (Inr u, s3) \<Rightarrow> (Inr (), emit Show s3))"
    unfolding subplot_images_def assms(2) assms(3)
    using assms(1) by (simp add: Let_def split_beta)
  then show ?thesis
    unfolding loop by (simp add: emit_def)
qed

text \<open>
  C7. A grid call with more images than \<open>n_rows * n_columns\<close> fails with the assertion
  error and leaves the state as it was: nothing has been read or rendered. A call with at
  most \<open>n_rows * n_columns\<close> images does not fail with the assertion error.
\<close>

theorem subplot_images_assertion:
  "(n_rows * n_columns < int (length images) \<longrightarrow>
      subplot_images e images n_rows n_columns figsize titles cmap axis layout_pad s =
        (Inl AssertionError, s)) \<and>
   (int (length images) \<le> n_rows * n_columns \<longrightarrow>
      fst (subplot_images e images n_rows n_columns figsize titles cmap axis layout_pad s)
        \<noteq> Inl AssertionError)"
proof (intro conjI impI)
  assume "n_rows * n_columns < int (length images)"
  then show "subplot_images e images n_rows n_columns figsize titles cmap axis layout_pad s =
        (Inl AssertionError, s)"
    by (simp add: subplot_images_def)
next
  assume le: "int (length images) \<le> n_rows * n_columns"
  show "fst (subplot_images e images n_rows n_columns figsize titles cmap axis layout_pad s)
        \<noteq> Inl AssertionError"
    by (simp add: subplot_images_run [OF le refl refl])
qed




lemmas grid_eval_defs = subplot_images_def cv2_imread_def alloc_def emit_def index_def
  enumerate_simps env0_def st0_def Let_def

theorem subplot_images_assertion_witness:
  "(2::int) * 2 < int (length [Arr 0, Arr 0, Arr 0, Arr 0, Arr 0]) \<and>
   subplot_images env0 [Arr 0, Arr 0, Arr 0, Arr 0, Arr 0] 2 2 (20, 20) NoTitles None False
     (1, 1) st0 = (Inl AssertionError, st0) \<and>
   int (length [Arr 0]) \<le> 2 * 2 \<and>
   fst (subplot_images env0 [Arr 0] 2 2 (20, 20) NoTitles None False (1, 1) st0) = Inr ()"
proof -
  have a: "(2::int) * 2 < int (length [Arr 0, Arr 0, Arr 0, Arr 0, Arr 0])" by simp
  have b: "int (length [Arr 0]) \<le> 2 * 2" by simp
  show ?thesis
    using a b
      subplot_images_assertion [of 2 2 "[Arr 0, Arr 0, Arr 0, Arr 0, Arr 0]" env0 "(20, 20)"
        NoTitles None False "(1, 1)" st0]
      subplot_images_assertion [of 2 2 "[Arr 0]" env0 "(20, 20)" NoTitles None False "(1, 1)"
        st0]
    by (simp add: grid_eval_defs)
qed



end
